theory Spec2Isabelle
  imports Complex_Main
begin

section \<open>Data model\<close>

text \<open>
  The repository holds two variants of one class \<open>SpeechToText\<close>: the standard one
  (\<^verbatim>\<open>indexbefore.js\<close>) and the ultra-low-latency one (\<^verbatim>\<open>indexhighsamp.js\<close>). The object
  fields become a record; every call the object makes on a collaborator (the Deepgram
  connection, the microphone, the console, the process) is appended to a trace, in the
  order of the source. Timestamps are the integers \<^verbatim>\<open>Date.now()\<close> returns, durations are
  their differences, both modelled as \<open>int\<close>.
\<close>

type_synonym chunk = string

text \<open>
  The result of a JavaScript division of two integers: the exact quotient, or one of
  the non-finite values that dividing by zero gives.
\<close>

datatype jsnum = Fin rat | PosInf | NegInf | NaN

definition js_div :: "int \<Rightarrow> int \<Rightarrow> jsnum" where
  "js_div a b =
     (if b = 0 then (if a = 0 then NaN else if 0 < a then PosInf else NegInf)
      else Fin (rat_of_int a / rat_of_int b))"

text \<open>The option objects handed to \<^verbatim>\<open>new Microphone\<close> and to \<^verbatim>\<open>listen.live\<close>.\<close>

record micOptions =
  rate :: int
  mic_channels :: int
  mic_encoding :: string
  device :: string
  exitOnSilence :: int

datatype jsval = Num int | Str string

record liveOptions =
  encoding :: string
  sample_rate :: jsval
  channels :: int
  model :: string
  smart_format :: bool
  punctuate :: "bool option"
  interim_results :: bool
  endpointing :: int
  utterance_end_ms :: int

text \<open>
  A transcript event as the handler reads it: \<^verbatim>\<open>transcription.channel?.alternatives\<close>,
  \<^verbatim>\<open>alternatives[0]?.transcript\<close> and \<^verbatim>\<open>transcription.is_final\<close>. An absent property is
  \<open>None\<close>.
\<close>

record alternative =
  transcript :: "string option"

record channelResult =
  alternatives :: "alternative list option"

record transcription =
  channel :: "channelResult option"
  is_final :: bool

text \<open>
  The live connection object. The only thing the program reads from it is
  \<^verbatim>\<open>getReadyState()\<close> (0 connecting, 1 open, 2 closing, 3 closed), which the socket
  changes on its own.
\<close>

record liveConnection =
  readyState :: int

datatype micStreamHandle = MicStream

text \<open>One constructor for each console statement of the two files.\<close>

datatype console =
    Established
  | StartingMicrophone string
  | MicrophoneError string
  | Interim string
  | CarriageReturn
  | FinalText string string
  | ProcessingTime int
  | AverageProcessingTime string
  | Separator
  | DeepgramError string
  | ConnectionClosed
  | FinalAverage string
  | ErrorStarting string
  | Stopping

datatype effect =
    Console console
  | ListenLive liveOptions
  | StartRecording
  | StopRecording
  | Send chunk
  | Finish
  | ProcessExit

section \<open>The ultra-low-latency variant (indexhighsamp.js)\<close>

record stt =
  connection :: "liveConnection option"
  startTime :: "int option"
  processingTimes :: "int list"
  totalProcessingTime :: int
  utteranceCount :: int
  micStream :: "micStreamHandle option"
  trace :: "effect list"

definition micSettings :: micOptions where
  "micSettings = \<lparr> rate = 11000, mic_channels = 1, mic_encoding = ''mu-law'',
     device = ''default'', exitOnSilence = 6 \<rparr>"

definition liveSettings :: liveOptions where
  "liveSettings = \<lparr> encoding = ''mulaw'', sample_rate = Num 11000, channels = 1,
     model = ''nova-3'', smart_format = False, punctuate = Some False,
     interim_results = True, endpointing = 150, utterance_end_ms = 1000 \<rparr>"

definition constructor :: stt where
  "constructor = \<lparr> connection = None, startTime = None, processingTimes = [],
     totalProcessingTime = 0, utteranceCount = 0, micStream = None, trace = [] \<rparr>"

definition emit :: "effect list \<Rightarrow> stt \<Rightarrow> stt" where
  "emit es s = s\<lparr>trace := trace s @ es\<rparr>"

text \<open>
  \<^verbatim>\<open>getAverageProcessingTime\<close>. The parameter \<open>toFixed\<close> stands for the built-in
  \<^verbatim>\<open>Number.prototype.toFixed(2)\<close> applied to the double nearest to the quotient.
\<close>

definition getAverageProcessingTime :: "(jsnum \<Rightarrow> string) \<Rightarrow> stt \<Rightarrow> string" where
  "getAverageProcessingTime toFixed s =
     (if utteranceCount s = 0 then ''0ms''
      else toFixed (js_div (totalProcessingTime s) (utteranceCount s)) @ ''ms'')"

definition updateProcessingStats :: "int \<Rightarrow> stt \<Rightarrow> stt" where
  "updateProcessingStats processingTime s =
     (if 0 < processingTime
      then s\<lparr>processingTimes := processingTimes s @ [processingTime],
             totalProcessingTime := totalProcessingTime s + processingTime,
             utteranceCount := utteranceCount s + 1\<rparr>
      else s)"

text \<open>
  \<^verbatim>\<open>start()\<close>. The argument is what \<^verbatim>\<open>deepgram.listen.live\<close> does: it throws (\<open>Inl\<close>),
  and then the assignment to \<^verbatim>\<open>this.connection\<close> and the registration of the handlers
  never happen, or it returns the connection.
\<close>

definition start :: "string + liveConnection \<Rightarrow> stt \<Rightarrow> stt" where
  "start live s =
     (case live of
        Inl error \<Rightarrow> emit [ListenLive liveSettings, Console (ErrorStarting error)] s
      | Inr c \<Rightarrow> emit [ListenLive liveSettings] (s\<lparr>connection := Some c\<rparr>))"

definition onOpen :: "stt \<Rightarrow> stt" where
  "onOpen s =
     emit [Console Established,
           Console (StartingMicrophone
             ''Starting microphone (Ultra-Low Latency Mode: 11kHz with Nova-3)...''),
           StartRecording]
       (s\<lparr>micStream := Some MicStream\<rparr>)"

definition onMicData :: "chunk \<Rightarrow> stt \<Rightarrow> stt" where
  "onMicData data s =
     (case connection s of
        None \<Rightarrow> s
      | Some c \<Rightarrow> if readyState c = 1 then emit [Send data] s else s)"

definition onMicError :: "string \<Rightarrow> stt \<Rightarrow> stt" where
  "onMicError error s = emit [Console (MicrophoneError error)] s"

text \<open>
  \<^verbatim>\<open>!this.startTime\<close> holds for \<^verbatim>\<open>null\<close> and for the number 0; \<open>anchor\<close> is the value of
  \<^verbatim>\<open>this.startTime\<close> after the first statement of the transcript handler.
\<close>

definition anchor :: "int option \<Rightarrow> int \<Rightarrow> int" where
  "anchor st now = (case st of None \<Rightarrow> now | Some t \<Rightarrow> if t = 0 then now else t)"

text \<open>
  The text of the first alternative, when
  \<^verbatim>\<open>alternatives && alternatives[0]?.transcript\<close> is truthy (the empty string is not).
\<close>

definition firstText :: "transcription \<Rightarrow> string option" where
  "firstText t =
     (case channel t of
        None \<Rightarrow> None
      | Some ch \<Rightarrow>
          (case alternatives ch of
             None \<Rightarrow> None
           | Some [] \<Rightarrow> None
           | Some (a # _) \<Rightarrow>
               (case transcript a of
                  None \<Rightarrow> None
                | Some text \<Rightarrow> if text = [] then None else Some text)))"

text \<open>
  The transcript handler. \<open>now1\<close> and \<open>now2\<close> are the two readings of \<^verbatim>\<open>Date.now()\<close>,
  the first used only when the timer is not running, the second only when the event
  has a text.
\<close>

definition onTranscript ::
  "(jsnum \<Rightarrow> string) \<Rightarrow> transcription \<Rightarrow> int \<Rightarrow> int \<Rightarrow> stt \<Rightarrow> stt" where
  "onTranscript toFixed t now1 now2 s =
     (let s1 = s\<lparr>startTime := Some (anchor (startTime s) now1)\<rparr> in
      case firstText t of
        None \<Rightarrow> s1
      | Some text \<Rightarrow>
          (let processingTime = now2 - anchor (startTime s) now1 in
           if \<not> is_final t then emit [Console (Interim text)] s1
           else
             (let s2 = (if 0 < processingTime
                        then updateProcessingStats processingTime s1 else s1);
                  s3 = emit [Console CarriageReturn,
                             Console (FinalText ''ULTRA-LOW: '' text)] s2;
                  s4 = (if 0 < processingTime
                        then emit [Console (ProcessingTime processingTime),
                                   Console (AverageProcessingTime
                                     (getAverageProcessingTime toFixed s3))] s3
                        else s3)
              in (emit [Console Separator] s4)\<lparr>startTime := None\<rparr>)))"

definition onError :: "string \<Rightarrow> stt \<Rightarrow> stt" where
  "onError error s = emit [Console (DeepgramError error)] s"

definition stop :: "(jsnum \<Rightarrow> string) \<Rightarrow> stt \<Rightarrow> stt" where
  "stop toFixed s =
     (let s1 = (case micStream s of
                  None \<Rightarrow> s
                | Some _ \<Rightarrow> (emit [StopRecording] s)\<lparr>micStream := None\<rparr>);
          s2 = (case connection s1 of
                  None \<Rightarrow> s1
                | Some _ \<Rightarrow> emit [Finish] s1)
      in if 0 < utteranceCount s2
         then emit [Console (FinalAverage (getAverageProcessingTime toFixed s2))] s2
         else s2)"

definition onClose :: "(jsnum \<Rightarrow> string) \<Rightarrow> stt \<Rightarrow> stt" where
  "onClose toFixed s =
     (let s1 = emit [Console ConnectionClosed] s;
          s2 = (if 0 < utteranceCount s1
                then emit [Console (FinalAverage (getAverageProcessingTime toFixed s1))] s1
                else s1)
      in stop toFixed s2)"

definition onSigint :: "(jsnum \<Rightarrow> string) \<Rightarrow> stt \<Rightarrow> stt" where
  "onSigint toFixed s = emit [ProcessExit] (stop toFixed (emit [Console Stopping] s))"

section \<open>The program: one object, started once, driven by events\<close>

text \<open>
  What the environment delivers after \<^verbatim>\<open>stt.start()\<close>: the four connection events, the
  two microphone stream events, the interrupt signal, and a change of the socket's
  ready state. A transcript event carries the two clock readings its handler may take.
\<close>

datatype event =
    Open
  | Transcript transcription int int
  | Error string
  | Close
  | MicData chunk
  | MicError string
  | Sigint
  | ReadyState int

definition setReadyState :: "int \<Rightarrow> stt \<Rightarrow> stt" where
  "setReadyState n s =
     (case connection s of
        None \<Rightarrow> s
      | Some c \<Rightarrow> s\<lparr>connection := Some (c\<lparr>readyState := n\<rparr>)\<rparr>)"

text \<open>
  Connection events reach a handler only when \<^verbatim>\<open>start()\<close> registered it, which it does
  right after assigning \<^verbatim>\<open>this.connection\<close>; stream events only once \<^verbatim>\<open>startRecording()\<close>
  has returned the stream the listeners sit on. After \<^verbatim>\<open>process.exit()\<close> nothing runs.
\<close>

definition step :: "(jsnum \<Rightarrow> string) \<Rightarrow> event \<Rightarrow> stt \<Rightarrow> stt" where
  "step toFixed ev s =
     (if ProcessExit \<in> set (trace s) then s
      else case ev of
          Open \<Rightarrow> if connection s = None then s else onOpen s
        | Transcript t now1 now2 \<Rightarrow>
            if connection s = None then s else onTranscript toFixed t now1 now2 s
        | Error error \<Rightarrow> if connection s = None then s else onError error s
        | Close \<Rightarrow> if connection s = None then s else onClose toFixed s
        | MicData data \<Rightarrow> if StartRecording \<in> set (trace s) then onMicData data s else s
        | MicError error \<Rightarrow> if StartRecording \<in> set (trace s) then onMicError error s else s
        | Sigint \<Rightarrow> onSigint toFixed s
        | ReadyState n \<Rightarrow> setReadyState n s)"

definition run :: "(jsnum \<Rightarrow> string) \<Rightarrow> string + liveConnection \<Rightarrow> event list \<Rightarrow> stt" where
  "run toFixed live evs = foldl (\<lambda>s ev. step toFixed ev s) (start live constructor) evs"

section \<open>Rendering with two decimals\<close>

text \<open>
  The digits \<^verbatim>\<open>toFixed(2)\<close> produces for a finite value, by the steps of the language
  standard on the exact value: the integer \<open>n\<close> nearest to a hundred times the value
  (the larger one on a tie), written in decimal and padded to three digits, with the
  point before the last two. It is used to evaluate concrete runs; it leaves out the
  switch to exponent notation from \<open>10\<^sup>2\<^sup>1\<close> on and the rounding of the quotient to a
  double.
\<close>

function decimal :: "int \<Rightarrow> string" where
  "decimal n =
     (if n < 10 then [''0123456789'' ! nat n]
      else decimal (n div 10) @ [''0123456789'' ! nat (n mod 10)])"
  by pat_completeness auto
termination
  by (relation "measure nat") auto

declare decimal.simps [simp del]

definition fixed2 :: "rat \<Rightarrow> string" where
  "fixed2 x =
     (let n = \<lfloor>x * 100 + 1 / 2\<rfloor>;
          m = decimal n;
          m' = replicate (3 - length m) CHR ''0'' @ m;
          k = length m'
      in take (k - 2) m' @ ''.'' @ drop (k - 2) m')"

definition toFixed2 :: "jsnum \<Rightarrow> string" where
  "toFixed2 v =
     (case v of
        Fin x \<Rightarrow> if x < 0 then ''-'' @ fixed2 (- x) else fixed2 x
      | PosInf \<Rightarrow> ''Infinity''
      | NegInf \<Rightarrow> ''-Infinity''
      | NaN \<Rightarrow> ''NaN'')"

section \<open>The standard variant (indexbefore.js)\<close>

record stt_std =
  connection_std :: "liveConnection option"
  startTime_std :: "int option"
  micStream_std :: "micStreamHandle option"
  trace_std :: "effect list"

definition micSettings_std :: micOptions where
  "micSettings_std = \<lparr> rate = 8000, mic_channels = 1, mic_encoding = ''mu-law'',
     device = ''default'', exitOnSilence = 6 \<rparr>"

definition liveSettings_std :: liveOptions where
  "liveSettings_std = \<lparr> encoding = ''mulaw'', sample_rate = Str ''8000'', channels = 1,
     model = ''nova-2'', smart_format = True, punctuate = None,
     interim_results = True, endpointing = 200, utterance_end_ms = 1000 \<rparr>"

definition constructor_std :: stt_std where
  "constructor_std = \<lparr> connection_std = None, startTime_std = None,
     micStream_std = None, trace_std = [] \<rparr>"

definition emit_std :: "effect list \<Rightarrow> stt_std \<Rightarrow> stt_std" where
  "emit_std es s = s\<lparr>trace_std := trace_std s @ es\<rparr>"

definition start_std :: "string + liveConnection \<Rightarrow> stt_std \<Rightarrow> stt_std" where
  "start_std live s =
     (case live of
        Inl error \<Rightarrow> emit_std [ListenLive liveSettings_std, Console (ErrorStarting error)] s
      | Inr c \<Rightarrow> emit_std [ListenLive liveSettings_std] (s\<lparr>connection_std := Some c\<rparr>))"

definition onOpen_std :: "stt_std \<Rightarrow> stt_std" where
  "onOpen_std s =
     emit_std [Console Established,
               Console (StartingMicrophone ''Starting microphone...''),
               StartRecording]
       (s\<lparr>micStream_std := Some MicStream\<rparr>)"

definition onMicData_std :: "chunk \<Rightarrow> stt_std \<Rightarrow> stt_std" where
  "onMicData_std data s =
     (case connection_std s of
        None \<Rightarrow> s
      | Some c \<Rightarrow> if readyState c = 1 then emit_std [Send data] s else s)"

definition onMicError_std :: "string \<Rightarrow> stt_std \<Rightarrow> stt_std" where
  "onMicError_std error s = emit_std [Console (MicrophoneError error)] s"

definition onTranscript_std :: "transcription \<Rightarrow> int \<Rightarrow> int \<Rightarrow> stt_std \<Rightarrow> stt_std" where
  "onTranscript_std t now1 now2 s =
     (let s1 = s\<lparr>startTime_std := Some (anchor (startTime_std s) now1)\<rparr> in
      case firstText t of
        None \<Rightarrow> s1
      | Some text \<Rightarrow>
          (let processingTime = now2 - anchor (startTime_std s) now1 in
           if \<not> is_final t then emit_std [Console (Interim text)] s1
           else (emit_std [Console CarriageReturn,
                           Console (FinalText ''FINAL: '' text),
                           Console (ProcessingTime processingTime),
                           Console Separator] s1)\<lparr>startTime_std := None\<rparr>))"

definition onError_std :: "string \<Rightarrow> stt_std \<Rightarrow> stt_std" where
  "onError_std error s = emit_std [Console (DeepgramError error)] s"

definition stop_std :: "stt_std \<Rightarrow> stt_std" where
  "stop_std s =
     (let s1 = (case micStream_std s of
                  None \<Rightarrow> s
                | Some _ \<Rightarrow> (emit_std [StopRecording] s)\<lparr>micStream_std := None\<rparr>)
      in case connection_std s1 of
           None \<Rightarrow> s1
         | Some _ \<Rightarrow> emit_std [Finish] s1)"

definition onClose_std :: "stt_std \<Rightarrow> stt_std" where
  "onClose_std s = stop_std (emit_std [Console ConnectionClosed] s)"

definition onSigint_std :: "stt_std \<Rightarrow> stt_std" where
  "onSigint_std s = emit_std [ProcessExit] (stop_std s)"

definition setReadyState_std :: "int \<Rightarrow> stt_std \<Rightarrow> stt_std" where
  "setReadyState_std n s =
     (case connection_std s of
        None \<Rightarrow> s
      | Some c \<Rightarrow> s\<lparr>connection_std := Some (c\<lparr>readyState := n\<rparr>)\<rparr>)"

definition step_std :: "event \<Rightarrow> stt_std \<Rightarrow> stt_std" where
  "step_std ev s =
     (if ProcessExit \<in> set (trace_std s) then s
      else case ev of
          Open \<Rightarrow> if connection_std s = None then s else onOpen_std s
        | Transcript t now1 now2 \<Rightarrow>
            if connection_std s = None then s else onTranscript_std t now1 now2 s
        | Error error \<Rightarrow> if connection_std s = None then s else onError_std error s
        | Close \<Rightarrow> if connection_std s = None then s else onClose_std s
        | MicData data \<Rightarrow>
            if StartRecording \<in> set (trace_std s) then onMicData_std data s else s
        | MicError error \<Rightarrow>
            if StartRecording \<in> set (trace_std s) then onMicError_std error s else s
        | Sigint \<Rightarrow> onSigint_std s
        | ReadyState n \<Rightarrow> setReadyState_std n s)"

definition run_std :: "string + liveConnection \<Rightarrow> event list \<Rightarrow> stt_std" where
  "run_std live evs = foldl (\<lambda>s ev. step_std ev s) (start_std live constructor_std) evs"

section \<open>Notions the properties are stated with\<close>

text \<open>The state after recording the durations of a list, one call each.\<close>

definition recordAll :: "int list \<Rightarrow> stt" where
  "recordAll ds = foldl (\<lambda>s d. updateProcessingStats d s) constructor ds"

definition statsInv :: "stt \<Rightarrow> bool" where
  "statsInv s \<longleftrightarrow>
     utteranceCount s = int (length (processingTimes s)) \<and>
     totalProcessingTime s = sum_list (processingTimes s) \<and>
     list_all (\<lambda>t. 0 < t) (processingTimes s)"

text \<open>The final summaries a trace holds, in order.\<close>

fun summaries :: "effect list \<Rightarrow> string list" where
  "summaries [] = []"
| "summaries (Console (FinalAverage a) # es) = a # summaries es"
| "summaries (_ # es) = summaries es"

text \<open>
  The exit status a trace leads to: the only exit request of the program is
  \<^verbatim>\<open>process.exit()\<close> without an argument, which ends the process with status 0.
\<close>

fun exitStatus :: "effect list \<Rightarrow> int option" where
  "exitStatus [] = None"
| "exitStatus (ProcessExit # es) = Some 0"
| "exitStatus (_ # es) = exitStatus es"




text \<open>Events and connections used in the concrete runs below.\<close>

definition withText :: "string \<Rightarrow> bool \<Rightarrow> transcription" where
  "withText text fin =
     \<lparr> channel = Some \<lparr> alternatives = Some [\<lparr> transcript = Some text \<rparr>] \<rparr>,
       is_final = fin \<rparr>"

definition interim :: "string \<Rightarrow> int \<Rightarrow> event" where
  "interim text now = Transcript (withText text False) now now"

definition final :: "string \<Rightarrow> int \<Rightarrow> event" where
  "final text now = Transcript (withText text True) now now"

definition noAlternatives :: transcription where
  "noAlternatives = \<lparr> channel = Some \<lparr> alternatives = Some [] \<rparr>, is_final = False \<rparr>"

definition connecting :: liveConnection where
  "connecting = \<lparr> readyState = 0 \<rparr>"

definition opened :: liveConnection where
  "opened = \<lparr> readyState = 1 \<rparr>"

section \<open>Latency statistics\<close>

lemma recordAll_snoc: "recordAll (ds @ [d]) = updateProcessingStats d (recordAll ds)"
  by (simp add: recordAll_def)

lemma statsInv_constructor: "statsInv constructor"
  by (simp add: statsInv_def constructor_def)

lemma statsInv_update: "statsInv s \<Longrightarrow> statsInv (updateProcessingStats d s)"
  by (simp add: statsInv_def updateProcessingStats_def)

lemma statsInv_recordAll: "statsInv (recordAll ds)"
proof (induction ds rule: rev_induct)
  case Nil
  show ?case by (simp add: recordAll_def statsInv_constructor)
next
  case (snoc d ds)
  then show ?case by (simp add: recordAll_snoc statsInv_update)
qed

lemma recordAll_times: "processingTimes (recordAll ds) = filter (\<lambda>d. 0 < d) ds"
  by (induction ds rule: rev_induct)
     (simp_all add: recordAll_snoc updateProcessingStats_def, simp add: recordAll_def constructor_def)

lemma recordAll_positive:
  "list_all (\<lambda>d. 0 < d) D \<Longrightarrow> processingTimes (recordAll D) = D"
  by (simp add: recordAll_times list_all_iff)

lemma average_any_state:
  "getAverageProcessingTime toFixed s =
     (if utteranceCount s = 0 then ''0ms''
      else toFixed (Fin (rat_of_int (totalProcessingTime s) / rat_of_int (utteranceCount s))) @ ''ms'')"
  by (simp add: getAverageProcessingTime_def js_div_def)

lemma statsInv_emit: "statsInv (emit es s) = statsInv s"
  by (simp add: statsInv_def emit_def)

lemma statsInv_stop: "statsInv s \<Longrightarrow> statsInv (stop toFixed s)"
  by (simp add: stop_def Let_def statsInv_def emit_def split: option.splits)

lemma statsInv_onTranscript: "statsInv s \<Longrightarrow> statsInv (onTranscript toFixed t now1 now2 s)"
  by (simp add: onTranscript_def Let_def statsInv_def emit_def updateProcessingStats_def
      split: option.splits)

lemma statsInv_step: "statsInv s \<Longrightarrow> statsInv (step toFixed ev s)"
  by (cases ev)
     (simp_all add: step_def statsInv_onTranscript statsInv_stop statsInv_emit onOpen_def
        onError_def onClose_def onMicData_def onMicError_def onSigint_def setReadyState_def
        Let_def split: option.splits,
      simp_all add: statsInv_def)

lemma statsInv_foldl:
  "statsInv s \<Longrightarrow> statsInv (foldl (\<lambda>s ev. step toFixed ev s) s evs)"
  by (induction evs arbitrary: s) (simp_all add: statsInv_step)

lemma statsInv_start: "statsInv (start live constructor)"
  by (cases live)
     (simp_all add: start_def statsInv_emit, simp_all add: statsInv_def constructor_def)

text \<open>
  Claim C1, as the code has it. After recording the durations of a list \<open>D\<close>, each
  greater than 0, \<^verbatim>\<open>getAverageProcessingTime\<close> returns the string \<^verbatim>\<open>0ms\<close> when \<open>D\<close> is
  empty, and otherwise the arithmetic mean of \<open>D\<close> rendered by \<^verbatim>\<open>toFixed(2)\<close> and
  followed by \<^verbatim>\<open>ms\<close>. The division it performs is the finite quotient sum / count, and
  in any state of the object the function either returns \<^verbatim>\<open>0ms\<close> without dividing or
  divides by a count that is not zero.
\<close>

theorem average_is_rendered_mean:
  assumes "list_all (\<lambda>d. 0 < d) D"
  shows "getAverageProcessingTime toFixed (recordAll D) =
           (if D = [] then ''0ms''
            else toFixed (Fin (rat_of_int (sum_list D) / rat_of_nat (length D))) @ ''ms'') \<and>
         (D \<noteq> [] \<longrightarrow>
            js_div (totalProcessingTime (recordAll D)) (utteranceCount (recordAll D)) =
              Fin (rat_of_int (sum_list D) / rat_of_nat (length D))) \<and>
         getAverageProcessingTime toFixed s =
           (if utteranceCount s = 0 then ''0ms''
            else toFixed (Fin (rat_of_int (totalProcessingTime s) /
                               rat_of_int (utteranceCount s))) @ ''ms'')"
proof -
  have inv: "statsInv (recordAll D)" by (rule statsInv_recordAll)
  have times: "processingTimes (recordAll D) = D"
    using assms by (rule recordAll_positive)
  from inv times have cnt: "utteranceCount (recordAll D) = int (length D)"
    and tot: "totalProcessingTime (recordAll D) = sum_list D"
    by (simp_all add: statsInv_def)
  have "getAverageProcessingTime toFixed (recordAll D) =
           (if D = [] then ''0ms''
            else toFixed (Fin (rat_of_int (sum_list D) / rat_of_nat (length D))) @ ''ms'')"
    by (simp add: average_any_state cnt tot)
  moreover have "D \<noteq> [] \<longrightarrow>
      js_div (totalProcessingTime (recordAll D)) (utteranceCount (recordAll D)) =
        Fin (rat_of_int (sum_list D) / rat_of_nat (length D))"
    by (simp add: js_div_def cnt tot)
  moreover have "getAverageProcessingTime toFixed s =
           (if utteranceCount s = 0 then ''0ms''
            else toFixed (Fin (rat_of_int (totalProcessingTime s) /
                               rat_of_int (utteranceCount s))) @ ''ms'')"
    by (rule average_any_state)
  ultimately show ?thesis by blast
qed

text \<open>The durations 100 and 300 give \<^verbatim>\<open>200.00ms\<close>.\<close>

theorem average_witness:
  "list_all (\<lambda>d. 0 < d) [100, 300 :: int] \<and>
   getAverageProcessingTime toFixed2 (recordAll [100, 300]) = ''200.00ms''"
proof -
  have pos: "list_all (\<lambda>d. 0 < d) [100, 300 :: int]" by simp
  have shown: "toFixed2 (Fin 200) @ ''ms'' = ''200.00ms''"
    by code_simp
  from average_is_rendered_mean [OF pos, of toFixed2 constructor]
  have avg: "getAverageProcessingTime toFixed2 (recordAll [100, 300]) = toFixed2 (Fin 200) @ ''ms''"
    by simp
  with shown pos show ?thesis by simp
qed

text \<open>
  What is returned is the rendering with two decimals, not the mean: the durations
  1, 1, 2 have the mean 4/3 and give \<^verbatim>\<open>1.33ms\<close>.
\<close>

theorem average_counterexample:
  "getAverageProcessingTime toFixed2 (recordAll [1, 1, 2]) = ''1.33ms'' \<and>
   rat_of_int (sum_list [1, 1, 2]) / rat_of_nat (length [1, 1, 2 :: int]) \<noteq> 133 / 100"
proof
  show "getAverageProcessingTime toFixed2 (recordAll [1, 1, 2]) = ''1.33ms''" by code_simp
  show "rat_of_int (sum_list [1, 1, 2]) / rat_of_nat (length [1, 1, 2 :: int]) \<noteq> 133 / 100" by simp
qed

text \<open>
  Claim C3. After any sequence of calls of \<^verbatim>\<open>updateProcessingStats\<close> on a new object,
  with any arguments, and after any run of the program, \<^verbatim>\<open>utteranceCount\<close> is the length
  of \<^verbatim>\<open>processingTimes\<close>, \<^verbatim>\<open>totalProcessingTime\<close> is its sum, and each of its elements
  is greater than 0.
\<close>

theorem stats_invariant:
  "statsInv (recordAll ds) \<and> statsInv (run toFixed live evs)"
  by (simp add: statsInv_recordAll run_def statsInv_foldl statsInv_start)

theorem stats_invariant_witness:
  "statsInv (recordAll [100, 0, 300]) \<and>
   processingTimes (recordAll [100, 0, 300]) = [100, 300] \<and>
   statsInv (run toFixed2 (Inr connecting) [Open, interim ''a'' 1000, final ''a'' 1100]) \<and>
   processingTimes (run toFixed2 (Inr connecting) [Open, interim ''a'' 1000, final ''a'' 1100])
     = [100]"
proof -
  have a: "processingTimes (recordAll [100, 0, 300]) = [100, 300]" by code_simp
  have b: "processingTimes
      (run toFixed2 (Inr connecting) [Open, interim ''a'' 1000, final ''a'' 1100]) = [100]"
    by code_simp
  from stats_invariant [of "[100, 0, 300]" toFixed2 "Inr connecting"
      "[Open, interim ''a'' 1000, final ''a'' 1100]"] a b
  show ?thesis by simp
qed

text \<open>
  Claim C4. \<^verbatim>\<open>updateProcessingStats\<close> with a duration \<open>d \<le> 0\<close> returns the object as it
  was. Recording 100, 0 and 300 leaves the sequence 100, 300, the sum 400 and the count
  2; the average is 200, shown as \<^verbatim>\<open>200.00ms\<close>. The same holds when the three durations
  come from three final transcripts.
\<close>

theorem nonpositive_duration_is_ignored:
  "(d \<le> 0 \<longrightarrow> updateProcessingStats d s = s) \<and>
   processingTimes (recordAll [100, 0, 300]) = [100, 300] \<and>
   totalProcessingTime (recordAll [100, 0, 300]) = 400 \<and>
   utteranceCount (recordAll [100, 0, 300]) = 2 \<and>
   js_div (totalProcessingTime (recordAll [100, 0, 300]))
          (utteranceCount (recordAll [100, 0, 300])) = Fin 200 \<and>
   getAverageProcessingTime toFixed2 (recordAll [100, 0, 300]) = ''200.00ms'' \<and>
   processingTimes (run toFixed2 (Inr connecting)
     [Open, interim ''a'' 1000, final ''a'' 1100, final ''b'' 2000,
      interim ''c'' 3000, final ''c'' 3300]) = [100, 300] \<and>
   getAverageProcessingTime toFixed2 (run toFixed2 (Inr connecting)
     [Open, interim ''a'' 1000, final ''a'' 1100, final ''b'' 2000,
      interim ''c'' 3000, final ''c'' 3300]) = ''200.00ms''"
proof -
  have "d \<le> 0 \<longrightarrow> updateProcessingStats d s = s"
    by (simp add: updateProcessingStats_def)
  moreover have "processingTimes (recordAll [100, 0, 300]) = [100, 300]" by code_simp
  moreover have "totalProcessingTime (recordAll [100, 0, 300]) = 400" by code_simp
  moreover have "utteranceCount (recordAll [100, 0, 300]) = 2" by code_simp
  moreover have "js_div (totalProcessingTime (recordAll [100, 0, 300]))
          (utteranceCount (recordAll [100, 0, 300])) = Fin 200" by code_simp
  moreover have "getAverageProcessingTime toFixed2 (recordAll [100, 0, 300]) = ''200.00ms''"
    by code_simp
  moreover have "processingTimes (run toFixed2 (Inr connecting)
     [Open, interim ''a'' 1000, final ''a'' 1100, final ''b'' 2000,
      interim ''c'' 3000, final ''c'' 3300]) = [100, 300]"
    by code_simp
  moreover have "getAverageProcessingTime toFixed2 (run toFixed2 (Inr connecting)
     [Open, interim ''a'' 1000, final ''a'' 1100, final ''b'' 2000,
      interim ''c'' 3000, final ''c'' 3300]) = ''200.00ms''"
    by code_simp
  ultimately show ?thesis by blast
qed

theorem nonpositive_duration_witness:
  "(0::int) \<le> 0 \<and> updateProcessingStats 0 (recordAll [100]) = recordAll [100] \<and>
   (-5::int) \<le> 0 \<and> updateProcessingStats (-5) (recordAll [100]) = recordAll [100]"
  using nonpositive_duration_is_ignored [of 0 "recordAll [100]"]
        nonpositive_duration_is_ignored [of "-5" "recordAll [100]"]
  by simp

section \<open>The transcript handler\<close>

text \<open>
  Claim C5, as the code has it. A transcript event without a text (no channel, no
  alternatives, an empty list of alternatives, or a first alternative whose transcript is
  absent or empty) prints nothing and leaves the statistics, the connection and the
  microphone stream as they were, in both variants. The timer is the one field it may
  change: when \<^verbatim>\<open>startTime\<close> is unset (or 0) the handler sets it to the current time before
  it looks at the alternatives; when the timer is running the object is unchanged.
\<close>

theorem transcript_without_text_only_anchors_timer:
  assumes "firstText t = None"
  shows "onTranscript toFixed t now now' s =
           s\<lparr>startTime := Some (anchor (startTime s) now)\<rparr> \<and>
         onTranscript_std t now now' s' =
           s'\<lparr>startTime_std := Some (anchor (startTime_std s') now)\<rparr> \<and>
         (\<forall>t0. startTime s = Some t0 \<and> t0 \<noteq> 0 \<longrightarrow>
            onTranscript toFixed t now now' s = s) \<and>
         (\<forall>t0. startTime_std s' = Some t0 \<and> t0 \<noteq> 0 \<longrightarrow>
            onTranscript_std t now now' s' = s')"
  using assms by (simp add: onTranscript_def onTranscript_std_def anchor_def)

text \<open>An event with an empty list of alternatives, timer unset and timer running.\<close>

theorem transcript_without_text_witness:
  "firstText noAlternatives = None \<and>
   onTranscript toFixed2 noAlternatives 1000 1001 constructor =
     constructor\<lparr>startTime := Some 1000\<rparr> \<and>
   onTranscript toFixed2 noAlternatives 2000 2001 (constructor\<lparr>startTime := Some 1000\<rparr>) =
     constructor\<lparr>startTime := Some 1000\<rparr> \<and>
   onTranscript_std noAlternatives 1000 1001 constructor_std =
     constructor_std\<lparr>startTime_std := Some 1000\<rparr>"
proof -
  have none: "firstText noAlternatives = None"
    by (simp add: firstText_def noAlternatives_def)
  from transcript_without_text_only_anchors_timer [OF none, of toFixed2 1000 1001 constructor constructor_std]
       transcript_without_text_only_anchors_timer [OF none, of toFixed2 2000 2001
         "constructor\<lparr>startTime := Some 1000\<rparr>" constructor_std]
       none
  show ?thesis by (simp add: anchor_def constructor_def constructor_std_def)
qed

text \<open>On a new object such an event changes the state: it starts the timer.\<close>

theorem transcript_without_text_counterexample:
  "firstText noAlternatives = None \<and>
   startTime constructor = None \<and>
   startTime (onTranscript toFixed2 noAlternatives 1000 1000 constructor) = Some 1000 \<and>
   onTranscript toFixed2 noAlternatives 1000 1000 constructor \<noteq> constructor \<and>
   onTranscript_std noAlternatives 1000 1000 constructor_std \<noteq> constructor_std"
  by (simp add: firstText_def noAlternatives_def onTranscript_def onTranscript_std_def
        anchor_def constructor_def constructor_std_def)

text \<open>
  Claim C6. For a transcript event with a text, the ultra-low-latency handler takes
  \<open>elapsed\<close> as the current time minus the start of the utterance: minus \<^verbatim>\<open>startTime\<close>
  when the timer is running, and minus the time at which this same event started the
  timer when it was unset (or 0). A final event appends \<open>elapsed\<close> to the statistics
  exactly when \<open>0 < elapsed\<close>, prints the final line (with the processing time and the
  new average when \<open>0 < elapsed\<close>) and the separator, and unsets the timer. An interim
  event prints the interim line, leaves the statistics as they were and leaves a
  running timer alone.
\<close>

theorem final_transcript_records_elapsed:
  assumes "firstText t = Some text"
  shows "(is_final t \<longrightarrow>
            (let elapsed = (case startTime s of
                              None \<Rightarrow> now' - now
                            | Some t0 \<Rightarrow> if t0 = 0 then now' - now else now' - t0);
                 r = onTranscript toFixed t now now' s
             in processingTimes r =
                  (if 0 < elapsed then processingTimes s @ [elapsed] else processingTimes s) \<and>
                totalProcessingTime r =
                  (if 0 < elapsed then totalProcessingTime s + elapsed
                   else totalProcessingTime s) \<and>
                utteranceCount r =
                  (if 0 < elapsed then utteranceCount s + 1 else utteranceCount s) \<and>
                trace r = trace s @
                  [Console CarriageReturn, Console (FinalText ''ULTRA-LOW: '' text)] @
                  (if 0 < elapsed
                   then [Console (ProcessingTime elapsed),
                         Console (AverageProcessingTime
                           (getAverageProcessingTime toFixed (updateProcessingStats elapsed s)))]
                   else []) @
                  [Console Separator] \<and>
                startTime r = None \<and>
                connection r = connection s \<and> micStream r = micStream s)) \<and>
         (\<not> is_final t \<longrightarrow>
            onTranscript toFixed t now now' s =
              s\<lparr>startTime := Some (case startTime s of
                                      None \<Rightarrow> now
                                    | Some t0 \<Rightarrow> if t0 = 0 then now else t0),
                 trace := trace s @ [Console (Interim text)]\<rparr>)"
  using assms
  by (simp add: onTranscript_def Let_def emit_def updateProcessingStats_def
        getAverageProcessingTime_def anchor_def split: option.splits)

theorem final_transcript_witness:
  "firstText (withText ''hello'' True) = Some ''hello'' \<and>
   is_final (withText ''hello'' True) \<and>
   processingTimes (onTranscript toFixed2 (withText ''hello'' True) 1100 1100
      (constructor\<lparr>startTime := Some 1000\<rparr>)) = [100] \<and>
   startTime (onTranscript toFixed2 (withText ''hello'' True) 1100 1100
      (constructor\<lparr>startTime := Some 1000\<rparr>)) = None \<and>
   trace (onTranscript toFixed2 (withText ''hello'' True) 1100 1100
      (constructor\<lparr>startTime := Some 1000\<rparr>)) =
     [Console CarriageReturn, Console (FinalText ''ULTRA-LOW: '' ''hello''),
      Console (ProcessingTime 100), Console (AverageProcessingTime ''100.00ms''),
      Console Separator] \<and>
   processingTimes (onTranscript toFixed2 (withText ''hello'' True) 2600 2750
      (constructor\<lparr>startTime := Some 2500\<rparr>)) = [250] \<and>
   processingTimes (onTranscript toFixed2 (withText ''hello'' True) 3000 3004
      constructor) = [4] \<and>
   processingTimes (onTranscript toFixed2 (withText ''hello'' True) 3000 3004
      (constructor\<lparr>startTime := Some 0\<rparr>)) = [4] \<and>
   processingTimes (onTranscript toFixed2 (withText ''hello'' True) 3000 3000
      constructor) = [] \<and>
   trace (onTranscript toFixed2 (withText ''hello'' True) 3000 3000 constructor) =
     [Console CarriageReturn, Console (FinalText ''ULTRA-LOW: '' ''hello''),
      Console Separator] \<and>
   firstText (withText ''hel'' False) = Some ''hel'' \<and>
   \<not> is_final (withText ''hel'' False) \<and>
   onTranscript toFixed2 (withText ''hel'' False) 1000 1001 constructor =
     constructor\<lparr>startTime := Some 1000, trace := [Console (Interim ''hel'')]\<rparr> \<and>
   onTranscript toFixed2 (withText ''hel'' False) 1000 1001
      (constructor\<lparr>startTime := Some 700\<rparr>) =
     constructor\<lparr>startTime := Some 700, trace := [Console (Interim ''hel'')]\<rparr>"
proof -
  have hasText: "firstText (withText ''hello'' True) = Some ''hello''"
    by (simp add: firstText_def withText_def)
  have fin: "is_final (withText ''hello'' True)"
    by (simp add: withText_def)
  have hasText': "firstText (withText ''hel'' False) = Some ''hel''"
    by (simp add: firstText_def withText_def)
  have fin': "\<not> is_final (withText ''hel'' False)"
    by (simp add: withText_def)
  have avg: "getAverageProcessingTime toFixed2
      (updateProcessingStats 100 (constructor\<lparr>startTime := Some 1000\<rparr>)) = ''100.00ms''"
    by code_simp
  have c: "startTime constructor = None" "trace constructor = []"
    "processingTimes constructor = []"
    by (simp_all add: constructor_def)
  from final_transcript_records_elapsed [OF hasText, where toFixed = toFixed2 and now = 1100
      and now' = 1100 and s = "constructor\<lparr>startTime := Some 1000\<rparr>"] fin
  have one: "processingTimes (onTranscript toFixed2 (withText ''hello'' True) 1100 1100
      (constructor\<lparr>startTime := Some 1000\<rparr>)) = [100] \<and>
   startTime (onTranscript toFixed2 (withText ''hello'' True) 1100 1100
      (constructor\<lparr>startTime := Some 1000\<rparr>)) = None \<and>
   trace (onTranscript toFixed2 (withText ''hello'' True) 1100 1100
      (constructor\<lparr>startTime := Some 1000\<rparr>)) =
     [Console CarriageReturn, Console (FinalText ''ULTRA-LOW: '' ''hello''),
      Console (ProcessingTime 100), Console (AverageProcessingTime ''100.00ms''),
      Console Separator]"
    by (simp add: Let_def c avg)
  from final_transcript_records_elapsed [OF hasText, where toFixed = toFixed2 and now = 2600
      and now' = 2750 and s = "constructor\<lparr>startTime := Some 2500\<rparr>"] fin
  have two: "processingTimes (onTranscript toFixed2 (withText ''hello'' True) 2600 2750
      (constructor\<lparr>startTime := Some 2500\<rparr>)) = [250]"
    by (simp add: Let_def c)
  from final_transcript_records_elapsed [OF hasText, where toFixed = toFixed2 and now = 3000
      and now' = 3004 and s = constructor] fin
  have three: "processingTimes (onTranscript toFixed2 (withText ''hello'' True) 3000 3004
      constructor) = [4]"
    by (simp add: Let_def c)
  from final_transcript_records_elapsed [OF hasText, where toFixed = toFixed2 and now = 3000
      and now' = 3004 and s = "constructor\<lparr>startTime := Some 0\<rparr>"] fin
  have four: "processingTimes (onTranscript toFixed2 (withText ''hello'' True) 3000 3004
      (constructor\<lparr>startTime := Some 0\<rparr>)) = [4]"
    by (simp add: Let_def c)
  from final_transcript_records_elapsed [OF hasText, where toFixed = toFixed2 and now = 3000
      and now' = 3000 and s = constructor] fin
  have five: "processingTimes (onTranscript toFixed2 (withText ''hello'' True) 3000 3000
      constructor) = [] \<and>
   trace (onTranscript toFixed2 (withText ''hello'' True) 3000 3000 constructor) =
     [Console CarriageReturn, Console (FinalText ''ULTRA-LOW: '' ''hello''),
      Console Separator]"
    by (simp add: Let_def c)
  from final_transcript_records_elapsed [OF hasText', where toFixed = toFixed2 and now = 1000
      and now' = 1001 and s = constructor] fin'
  have six: "onTranscript toFixed2 (withText ''hel'' False) 1000 1001 constructor =
     constructor\<lparr>startTime := Some 1000, trace := [Console (Interim ''hel'')]\<rparr>"
    by (simp add: c)
  from final_transcript_records_elapsed [OF hasText', where toFixed = toFixed2 and now = 1000
      and now' = 1001 and s = "constructor\<lparr>startTime := Some 700\<rparr>"] fin'
  have seven: "onTranscript toFixed2 (withText ''hel'' False) 1000 1001
      (constructor\<lparr>startTime := Some 700\<rparr>) =
     constructor\<lparr>startTime := Some 700, trace := [Console (Interim ''hel'')]\<rparr>"
    by (simp add: c)
  from hasText fin hasText' fin' one two three four five six seven show ?thesis by blast
qed

section \<open>Forwarding audio\<close>

text \<open>
  Claim C7. In both variants a captured chunk is sent when \<^verbatim>\<open>this.connection\<close> is set and
  its ready state is 1 at that moment, and the send is the only effect. Otherwise the
  object is unchanged: nothing is sent and nothing is kept for later.
\<close>

theorem chunk_sent_iff_writable:
  "(\<forall>c. connection s = Some c \<and> readyState c = 1 \<longrightarrow>
        onMicData data s = s\<lparr>trace := trace s @ [Send data]\<rparr>) \<and>
   (connection s = None \<or> (\<exists>c. connection s = Some c \<and> readyState c \<noteq> 1) \<longrightarrow>
        onMicData data s = s) \<and>
   (\<forall>c. connection_std s' = Some c \<and> readyState c = 1 \<longrightarrow>
        onMicData_std data s' = s'\<lparr>trace_std := trace_std s' @ [Send data]\<rparr>) \<and>
   (connection_std s' = None \<or> (\<exists>c. connection_std s' = Some c \<and> readyState c \<noteq> 1) \<longrightarrow>
        onMicData_std data s' = s')"
  by (auto simp add: onMicData_def onMicData_std_def emit_def emit_std_def)

theorem chunk_sent_witness:
  "connection (start (Inr opened) constructor) = Some opened \<and> readyState opened = 1 \<and>
   trace (onMicData ''ab'' (start (Inr opened) constructor)) =
     [ListenLive liveSettings, Send ''ab''] \<and>
   connection (start (Inr connecting) constructor) = Some connecting \<and>
   readyState connecting \<noteq> 1 \<and>
   onMicData ''ab'' (start (Inr connecting) constructor) = start (Inr connecting) constructor \<and>
   connection constructor = None \<and>
   onMicData ''ab'' constructor = constructor"
proof -
  have o: "connection (start (Inr opened) constructor) = Some opened" "readyState opened = 1"
    "trace (start (Inr opened) constructor) = [ListenLive liveSettings]"
    by (simp_all add: start_def emit_def opened_def constructor_def)
  have c: "connection (start (Inr connecting) constructor) = Some connecting"
    "readyState connecting \<noteq> 1" "connection constructor = None"
    by (simp_all add: start_def emit_def connecting_def constructor_def)
  from chunk_sent_iff_writable [of "start (Inr opened) constructor" "''ab''" constructor_std] o
  have one: "trace (onMicData ''ab'' (start (Inr opened) constructor)) =
     [ListenLive liveSettings, Send ''ab'']"
    by simp
  from chunk_sent_iff_writable [of "start (Inr connecting) constructor" "''ab''" constructor_std] c
  have two: "onMicData ''ab'' (start (Inr connecting) constructor) = start (Inr connecting) constructor"
    by blast
  from chunk_sent_iff_writable [of constructor "''ab''" constructor_std] c
  have three: "onMicData ''ab'' constructor = constructor"
    by blast
  from o c one two three show ?thesis by blast
qed

section \<open>Start-up failure and teardown\<close>

lemma step_exited: "ProcessExit \<in> set (trace s) \<Longrightarrow> step toFixed ev s = s"
  by (simp add: step_def)

lemma foldl_step_exited:
  "ProcessExit \<in> set (trace s) \<Longrightarrow> foldl (\<lambda>s ev. step toFixed ev s) s evs = s"
  by (induction evs) (simp_all add: step_exited)

lemma step_std_exited: "ProcessExit \<in> set (trace_std s) \<Longrightarrow> step_std ev s = s"
  by (simp add: step_std_def)

lemma foldl_step_std_exited:
  "ProcessExit \<in> set (trace_std s) \<Longrightarrow> foldl (\<lambda>s ev. step_std ev s) s evs = s"
  by (induction evs) (simp_all add: step_std_exited)

lemma start_failed:
  "start (Inl error) constructor =
     constructor\<lparr>trace := [ListenLive liveSettings, Console (ErrorStarting error)]\<rparr>"
  by (simp add: start_def emit_def constructor_def)

lemma start_std_failed:
  "start_std (Inl error) constructor_std =
     constructor_std\<lparr>trace_std := [ListenLive liveSettings_std, Console (ErrorStarting error)]\<rparr>"
  by (simp add: start_std_def emit_std_def constructor_std_def)

lemma step_failed:
  "step toFixed ev (start (Inl error) constructor) =
     (if ev = Sigint
      then constructor\<lparr>trace := [ListenLive liveSettings, Console (ErrorStarting error),
                                  Console Stopping, ProcessExit]\<rparr>
      else start (Inl error) constructor)"
  by (cases ev)
     (simp_all add: step_def start_def constructor_def onSigint_def stop_def emit_def
        setReadyState_def)

lemma step_std_failed:
  "step_std ev (start_std (Inl error) constructor_std) =
     (if ev = Sigint
      then constructor_std\<lparr>trace_std := [ListenLive liveSettings_std,
                                          Console (ErrorStarting error), ProcessExit]\<rparr>
      else start_std (Inl error) constructor_std)"
  by (cases ev)
     (simp_all add: step_std_def start_std_def constructor_std_def onSigint_std_def
        stop_std_def emit_std_def setReadyState_std_def)

lemma run_failed:
  "run toFixed (Inl error) evs =
     constructor\<lparr>trace := [ListenLive liveSettings, Console (ErrorStarting error)] @
                            (if Sigint \<in> set evs then [Console Stopping, ProcessExit] else [])\<rparr>"
  unfolding run_def
proof (induction evs)
  case Nil
  show ?case by (simp add: start_failed)
next
  case (Cons ev evs)
  show ?case
  proof (cases "ev = Sigint")
    case True
    then show ?thesis
      by (simp add: step_failed foldl_step_exited)
  next
    case False
    then show ?thesis using Cons.IH by (simp add: step_failed)
  qed
qed

lemma run_std_failed:
  "run_std (Inl error) evs =
     constructor_std\<lparr>trace_std := [ListenLive liveSettings_std, Console (ErrorStarting error)] @
                                    (if Sigint \<in> set evs then [ProcessExit] else [])\<rparr>"
  unfolding run_std_def
proof (induction evs)
  case Nil
  show ?case by (simp add: start_std_failed)
next
  case (Cons ev evs)
  show ?case
  proof (cases "ev = Sigint")
    case True
    then show ?thesis
      by (simp add: step_std_failed foldl_step_std_exited)
  next
    case False
    then show ?thesis using Cons.IH by (simp add: step_std_failed)
  qed
qed

text \<open>
  Claim C8, as the code has it. When \<^verbatim>\<open>listen.live\<close> throws, \<^verbatim>\<open>start()\<close> prints the start-up
  error once and returns; \<^verbatim>\<open>connection\<close> and \<^verbatim>\<open>micStream\<close> stay unset, recording is never
  started and the channel is not opened a second time, whatever events follow. The
  program asks for no exit on this path: only an interrupt ends the process, through
  \<^verbatim>\<open>process.exit()\<close> with status 0. This holds for both variants.
\<close>

theorem failed_start_reports_once_and_does_not_exit:
  "run toFixed (Inl error) evs =
     constructor\<lparr>trace := [ListenLive liveSettings, Console (ErrorStarting error)] @
                            (if Sigint \<in> set evs then [Console Stopping, ProcessExit] else [])\<rparr> \<and>
   exitStatus (trace (run toFixed (Inl error) evs)) =
     (if Sigint \<in> set evs then Some 0 else None) \<and>
   run_std (Inl error) evs =
     constructor_std\<lparr>trace_std := [ListenLive liveSettings_std, Console (ErrorStarting error)] @
                                    (if Sigint \<in> set evs then [ProcessExit] else [])\<rparr> \<and>
   exitStatus (trace_std (run_std (Inl error) evs)) =
     (if Sigint \<in> set evs then Some 0 else None)"
  by (simp add: run_failed run_std_failed)

text \<open>
  After a failed start no exit is requested, and an interrupt then exits with status 0,
  never with a non-zero one.
\<close>

theorem failed_start_counterexample:
  "trace (run toFixed2 (Inl ''no network'') []) =
     [ListenLive liveSettings, Console (ErrorStarting ''no network'')] \<and>
   exitStatus (trace (run toFixed2 (Inl ''no network'') [])) = None \<and>
   exitStatus (trace (run toFixed2 (Inl ''no network'') [Sigint])) = Some 0 \<and>
   exitStatus (trace_std (run_std (Inl ''no network'') [])) = None \<and>
   exitStatus (trace_std (run_std (Inl ''no network'') [Sigint])) = Some 0"
  by code_simp

text \<open>
  Claim C10, as the code has it. \<^verbatim>\<open>stop()\<close> on an object that was never started, or whose
  start failed, does nothing: both handles are unset. After a successful \<^verbatim>\<open>start()\<close> that
  has not reached the open event, \<^verbatim>\<open>micStream\<close> is unset and the count is 0, so the
  microphone is not stopped and no summary is printed, but \<^verbatim>\<open>connection\<close> is set and
  \<^verbatim>\<open>stop()\<close> calls \<^verbatim>\<open>finish()\<close> on it once. No call is made on an unset handle.
\<close>

theorem stop_before_ready:
  "stop toFixed constructor = constructor \<and>
   stop_std constructor_std = constructor_std \<and>
   stop toFixed (start (Inl error) constructor) = start (Inl error) constructor \<and>
   stop_std (start_std (Inl error) constructor_std) = start_std (Inl error) constructor_std \<and>
   stop toFixed (start (Inr c) constructor) =
     constructor\<lparr>connection := Some c, trace := [ListenLive liveSettings, Finish]\<rparr> \<and>
   stop_std (start_std (Inr c) constructor_std) =
     constructor_std\<lparr>connection_std := Some c,
                      trace_std := [ListenLive liveSettings_std, Finish]\<rparr> \<and>
   (micStream s = None \<and> utteranceCount s = 0 \<longrightarrow>
      stop toFixed s =
        (case connection s of None \<Rightarrow> s | Some _ \<Rightarrow> s\<lparr>trace := trace s @ [Finish]\<rparr>)) \<and>
   (micStream_std s' = None \<longrightarrow>
      stop_std s' =
        (case connection_std s' of None \<Rightarrow> s'
         | Some _ \<Rightarrow> s'\<lparr>trace_std := trace_std s' @ [Finish]\<rparr>))"
  by (simp add: stop_def stop_std_def start_def start_std_def emit_def emit_std_def
        constructor_def constructor_std_def split: option.splits)

theorem stop_before_ready_witness:
  "micStream (setReadyState 3 (start (Inr connecting) constructor)) = None \<and>
   utteranceCount (setReadyState 3 (start (Inr connecting) constructor)) = 0 \<and>
   trace (stop toFixed2 (setReadyState 3 (start (Inr connecting) constructor))) =
     [ListenLive liveSettings, Finish] \<and>
   micStream_std (start_std (Inr connecting) constructor_std) = None \<and>
   trace_std (stop_std (start_std (Inr connecting) constructor_std)) =
     [ListenLive liveSettings_std, Finish]"
proof -
  have pre: "micStream (setReadyState 3 (start (Inr connecting) constructor)) = None"
    "utteranceCount (setReadyState 3 (start (Inr connecting) constructor)) = 0"
    "micStream_std (start_std (Inr connecting) constructor_std) = None"
    by (simp_all add: setReadyState_def start_def start_std_def emit_def emit_std_def
          constructor_def constructor_std_def)
  have obs: "connection (setReadyState 3 (start (Inr connecting) constructor)) =
      Some (connecting\<lparr>readyState := 3\<rparr>)"
    "trace (setReadyState 3 (start (Inr connecting) constructor)) = [ListenLive liveSettings]"
    "connection_std (start_std (Inr connecting) constructor_std) = Some connecting"
    "trace_std (start_std (Inr connecting) constructor_std) = [ListenLive liveSettings_std]"
    by (simp_all add: setReadyState_def start_def start_std_def emit_def emit_std_def
          constructor_def constructor_std_def)
  from stop_before_ready [of toFixed2 "''x''" connecting
      "setReadyState 3 (start (Inr connecting) constructor)"
      "start_std (Inr connecting) constructor_std"] pre obs
  show ?thesis by simp
qed

text \<open>
  Started but not yet open: the connection is set, and \<^verbatim>\<open>stop()\<close> finishes it.
\<close>

theorem stop_before_ready_counterexample:
  "connection (start (Inr connecting) constructor) \<noteq> None \<and>
   trace (stop toFixed2 (start (Inr connecting) constructor)) =
     [ListenLive liveSettings, Finish] \<and>
   stop toFixed2 (start (Inr connecting) constructor) \<noteq> start (Inr connecting) constructor \<and>
   connection_std (start_std (Inr connecting) constructor_std) \<noteq> None \<and>
   trace_std (stop_std (start_std (Inr connecting) constructor_std)) =
     [ListenLive liveSettings_std, Finish]"
  by (simp add: stop_def stop_std_def start_def start_std_def emit_def emit_std_def
        constructor_def constructor_std_def)

text \<open>
  Claim C2 asks that two teardowns in a row release the resources once and print the
  summary once. The code does not: in a run with one recorded utterance, closed and
  then interrupted, the microphone is stopped once, but \<^verbatim>\<open>finish()\<close> is called twice and
  the final average is printed three times; the close event alone prints it twice. The
  standard variant calls \<^verbatim>\<open>finish()\<close> twice as well.
\<close>

theorem teardown_twice_repeats_release_and_summary:
  "summaries (trace (run toFixed2 (Inr connecting)
      [Open, interim ''hi'' 1000, final ''hi there'' 1100, Close])) =
     [''100.00ms'', ''100.00ms''] \<and>
   summaries (trace (run toFixed2 (Inr connecting)
      [Open, interim ''hi'' 1000, final ''hi there'' 1100, Close, Sigint])) =
     [''100.00ms'', ''100.00ms'', ''100.00ms''] \<and>
   count_list (trace (run toFixed2 (Inr connecting)
      [Open, interim ''hi'' 1000, final ''hi there'' 1100, Close, Sigint])) Finish = 2 \<and>
   count_list (trace (run toFixed2 (Inr connecting)
      [Open, interim ''hi'' 1000, final ''hi there'' 1100, Close, Sigint])) StopRecording = 1 \<and>
   count_list (trace_std (run_std (Inr connecting) [Open, Close, Sigint])) Finish = 2 \<and>
   count_list (trace_std (run_std (Inr connecting) [Open, Close, Sigint])) StopRecording = 1"
  by code_simp

section \<open>The two variants\<close>























end
